theory Spec2Isabelle
  imports Complex_Main "HOL-Library.Sublist" "HOL-Library.AList"
begin

section \<open>Python strings\<close>

text \<open>
  A text is a list of code points below 256 (Latin-1). On these, Python's \<^verbatim>\<open>str.lower\<close>
  maps \<^verbatim>\<open>A-Z\<close> and the accented capitals \<^verbatim>\<open>0xC0-0xDE\<close> (without the
  multiplication sign \<^verbatim>\<open>0xD7\<close>) 32 places up and leaves every other code point alone.
\<close>

definition lower_char :: "char \<Rightarrow> char" where
  "lower_char c =
     (let n = of_char c :: nat
      in if (65 \<le> n \<and> n \<le> 90) \<or> (192 \<le> n \<and> n \<le> 222 \<and> n \<noteq> 215)
         then char_of (n + 32) else c)"

definition lower :: "string \<Rightarrow> string" where
  "lower s = map lower_char s"

text \<open>\<^verbatim>\<open>w in s\<close> on strings: \<open>w\<close> occurs in \<open>s\<close> as a contiguous block.\<close>

fun str_in :: "string \<Rightarrow> string \<Rightarrow> bool" where
  "str_in w [] = (w = [])"
| "str_in w (c # cs) = (prefix w (c # cs) \<or> str_in w cs)"

text \<open>\<^verbatim>\<open>any(word in text for word in words)\<close>\<close>

definition any_word_in :: "string list \<Rightarrow> string \<Rightarrow> bool" where
  "any_word_in ws t = list_ex (\<lambda>w. str_in w t) ws"

section \<open>Keyword intent classifier (agents/sales\_agent.py)\<close>

definition cart_words :: "string list" where
  "cart_words = [''cart'', ''basket'', ''bag'', ''what did i add'', ''show cart'',
                 ''view cart'', ''my items'']"

definition purchase_words :: "string list" where
  "purchase_words = [''buy'', ''purchase'', ''checkout'', ''order'']"

definition browsing_words :: "string list" where
  "browsing_words = [''looking'', ''browse'', ''show'', ''find'', ''search'', ''need'']"

definition help_words :: "string list" where
  "help_words = [''help'', ''question'', ''how'', ''what'', ''where'', ''when'',
                 ''available'', ''stock'']"

definition greeting_words :: "string list" where
  "greeting_words = [''hi'', ''hello'', ''hey'', ''good morning'', ''good afternoon'']"

definition complaint_words :: "string list" where
  "complaint_words = [''problem'', ''issue'', ''wrong'', ''broken'', ''return'', ''refund'']"

definition detect_intent :: "string \<Rightarrow> string" where
  "detect_intent message =
     (let message_lower = lower message
      in if any_word_in cart_words message_lower then ''view_cart''
         else if any_word_in purchase_words message_lower then ''purchase_intent''
         else if any_word_in browsing_words message_lower then ''browsing''
         else if any_word_in help_words message_lower then ''needs_help''
         else if any_word_in greeting_words message_lower then ''greeting''
         else if any_word_in complaint_words message_lower then ''complaint''
         else ''general'')"

text \<open>
  The classifier as the specification words it: an ordered table of labels with their
  keyword sets, scanned from the highest priority down; the first set with a keyword
  occurring in the lowered text gives the label, and no match gives \<^verbatim>\<open>general\<close>.
\<close>

definition intent_priority :: "(string \<times> string list) list" where
  "intent_priority =
     [(''view_cart'', cart_words),
      (''purchase_intent'', purchase_words),
      (''browsing'', browsing_words),
      (''needs_help'', help_words),
      (''greeting'', greeting_words),
      (''complaint'', complaint_words)]"

fun first_match :: "(string \<times> string list) list \<Rightarrow> string \<Rightarrow> string" where
  "first_match [] t = ''general''"
| "first_match ((label, ws) # rest) t =
     (if any_word_in ws t then label else first_match rest t)"

definition classify_spec :: "string \<Rightarrow> string" where
  "classify_spec text = first_match intent_priority (lower text)"

section \<open>Python values\<close>

text \<open>
  The dictionaries and lists that the agents pass around, as JSON-like values. The type
  \<open>'p\<close> stands for Python's \<^verbatim>\<open>float\<close>; its arithmetic is a parameter of the functions
  that compute with it. A \<^verbatim>\<open>dict\<close> keeps its keys in insertion order.
\<close>

datatype 'p json =
    JNone
  | JBool bool
  | JInt int
  | JFloat 'p
  | JStr string
  | JList "'p json list"
  | JDict "(string \<times> 'p json) list"

type_synonym 'p dict = "(string \<times> 'p json) list"

section \<open>Persisted records (models/models.py)\<close>

record cart_line =
  product_id :: int
  quantity :: int
  added_at :: string

record message =
  role :: string
  content :: string
  timestamp :: string

record 'p chat_session =
  session_id :: string
  customer_id :: "int option"
  channel :: string
  session_context :: "'p dict"
  messages :: "message list"
  cart :: "cart_line list"
  is_active :: bool

record 'p product =
  prod_id :: int
  prod_name :: string
  prod_price :: 'p
  prod_brand :: string
  prod_images :: "string list"

record 'p customer =
  cust_id :: int
  cust_name :: string
  loyalty_tier :: string
  preferences :: "'p dict"
  loyalty_points :: int

text \<open>
  The database: one list of rows per table. A query
  \<^verbatim>\<open>db.query(T).filter(T.key == k).first()\<close> is \<^const>\<open>find\<close> on the rows. The store
  itself is taken as reliable: a query or a commit of SQLAlchemy that fails is outside
  the model. The columns \<^verbatim>\<open>created_at\<close> and \<^verbatim>\<open>updated_at\<close> are maintained by the
  database server and are left out.
\<close>

record 'p database =
  chat_sessions :: "'p chat_session list"
  products :: "'p product list"
  customers :: "'p customer list"

text \<open>Assigning to the columns of the first row that a query returns.\<close>

fun update_first :: "('a \<Rightarrow> bool) \<Rightarrow> ('a \<Rightarrow> 'a) \<Rightarrow> 'a list \<Rightarrow> 'a list" where
  "update_first P f [] = []"
| "update_first P f (x # xs) = (if P x then f x # xs else x # update_first P f xs)"

section \<open>Session store and cart engine (services/context\_manager.py)\<close>

definition get_session :: "'p database \<Rightarrow> string \<Rightarrow> 'p chat_session option" where
  "get_session db sid = find (\<lambda>s. session_id s = sid) (chat_sessions db)"

definition assign_columns ::
  "'p dict option \<Rightarrow> message list option \<Rightarrow> cart_line list option \<Rightarrow> string option \<Rightarrow>
   'p chat_session \<Rightarrow> 'p chat_session" where
  "assign_columns context' messages' cart' channel' session =
     (let s1 = (case context' of None \<Rightarrow> session | Some c \<Rightarrow> session\<lparr>session_context := c\<rparr>);
          s2 = (case messages' of None \<Rightarrow> s1 | Some m \<Rightarrow> s1\<lparr>messages := m\<rparr>);
          s3 = (case cart' of None \<Rightarrow> s2 | Some c \<Rightarrow> s2\<lparr>cart := c\<rparr>)
      in (case channel' of None \<Rightarrow> s3 | Some c \<Rightarrow> s3\<lparr>channel := c\<rparr>))"

definition update_session ::
  "'p database \<Rightarrow> string \<Rightarrow> 'p dict option \<Rightarrow> message list option \<Rightarrow>
   cart_line list option \<Rightarrow> string option \<Rightarrow> bool \<times> 'p database" where
  "update_session db sid context' messages' cart' channel' =
     (case find (\<lambda>s. session_id s = sid) (chat_sessions db) of
        None \<Rightarrow> (False, db)
      | Some _ \<Rightarrow>
          (True, db\<lparr>chat_sessions :=
             update_first (\<lambda>s. session_id s = sid)
               (assign_columns context' messages' cart' channel') (chat_sessions db)\<rparr>))"

text \<open>
  What the three cart mutations return: \<^verbatim>\<open>{"success": False, "message": ...}\<close> for a
  missing session, and otherwise the dictionary with the keys \<^verbatim>\<open>success\<close>,
  \<^verbatim>\<open>cart\<close>, \<^verbatim>\<open>cart_count\<close> and \<^verbatim>\<open>total_items\<close>.
\<close>

datatype cart_reply =
    Failure string
  | CartReply bool "cart_line list" int int

text \<open>\<^verbatim>\<open>existing_item["quantity"] += quantity\<close>, on the first line of the product.\<close>

fun increment_first :: "int \<Rightarrow> int \<Rightarrow> cart_line list \<Rightarrow> cart_line list" where
  "increment_first pid q [] = []"
| "increment_first pid q (item # rest) =
     (if product_id item = pid then item\<lparr>quantity := quantity item + q\<rparr> # rest
      else item # increment_first pid q rest)"

text \<open>
  The middle of \<^verbatim>\<open>add_to_cart\<close>: look for the first line of the product; increment it,
  or append a new line stamped with the current time.
\<close>

definition add_line :: "int \<Rightarrow> int \<Rightarrow> string \<Rightarrow> cart_line list \<Rightarrow> cart_line list" where
  "add_line pid q now cart0 =
     (let existing_item = find (\<lambda>item. product_id item = pid) cart0
      in case existing_item of
           Some _ \<Rightarrow> increment_first pid q cart0
         | None \<Rightarrow> cart0 @ [\<lparr>product_id = pid, quantity = q, added_at = now\<rparr>])"

definition add_to_cart ::
  "'p database \<Rightarrow> string \<Rightarrow> int \<Rightarrow> int \<Rightarrow> string \<Rightarrow> cart_reply \<times> 'p database" where
  "add_to_cart db sid pid q now =
     (case get_session db sid of
        None \<Rightarrow> (Failure ''Session not found'', db)
      | Some session \<Rightarrow>
          (let cart1 = add_line pid q now (cart session);
               (success, db') = update_session db sid None None (Some cart1) None
           in (CartReply success cart1 (int (length cart1)) (sum_list (map quantity cart1)),
               db')))"

definition remove_from_cart ::
  "'p database \<Rightarrow> string \<Rightarrow> int \<Rightarrow> cart_reply \<times> 'p database" where
  "remove_from_cart db sid pid =
     (case get_session db sid of
        None \<Rightarrow> (Failure ''Session not found'', db)
      | Some session \<Rightarrow>
          (let cart1 = filter (\<lambda>item. product_id item \<noteq> pid) (cart session);
               (success, db') = update_session db sid None None (Some cart1) None
           in (CartReply success cart1 (int (length cart1)) (sum_list (map quantity cart1)),
               db')))"

text \<open>\<^verbatim>\<open>item["quantity"] = quantity\<close>, on the first line of the product.\<close>

fun assign_first :: "int \<Rightarrow> int \<Rightarrow> cart_line list \<Rightarrow> cart_line list" where
  "assign_first pid q [] = []"
| "assign_first pid q (item # rest) =
     (if product_id item = pid then item\<lparr>quantity := q\<rparr> # rest
      else item # assign_first pid q rest)"

text \<open>
  The loop of \<^verbatim>\<open>update_cart_quantity\<close> stops at the first line of the product;
  \<^verbatim>\<open>cart.remove(item)\<close> deletes the first element equal to that line, which is
  \<^const>\<open>remove1\<close>.
\<close>

definition set_line_quantity :: "int \<Rightarrow> int \<Rightarrow> cart_line list \<Rightarrow> cart_line list" where
  "set_line_quantity pid q cart0 =
     (case find (\<lambda>item. product_id item = pid) cart0 of
        None \<Rightarrow> cart0
      | Some item \<Rightarrow> if q \<le> 0 then remove1 item cart0 else assign_first pid q cart0)"

definition update_cart_quantity ::
  "'p database \<Rightarrow> string \<Rightarrow> int \<Rightarrow> int \<Rightarrow> cart_reply \<times> 'p database" where
  "update_cart_quantity db sid pid q =
     (case get_session db sid of
        None \<Rightarrow> (Failure ''Session not found'', db)
      | Some session \<Rightarrow>
          (let cart1 = set_line_quantity pid q (cart session);
               (success, db') = update_session db sid None None (Some cart1) None
           in (CartReply success cart1 (int (length cart1)) (sum_list (map quantity cart1)),
               db')))"

definition clear_cart :: "'p database \<Rightarrow> string \<Rightarrow> bool \<times> 'p database" where
  "clear_cart db sid = update_session db sid None None (Some []) None"

subsection \<open>The priced view\<close>

text \<open>
  Python's float operations that \<^verbatim>\<open>get_cart\<close> uses: \<^verbatim>\<open>price * quantity\<close> of a float
  and an int, \<^verbatim>\<open>+\<close> of two floats, and \<^verbatim>\<open>round(total, 2)\<close>.
\<close>

record 'p float_ops =
  fmul :: "'p \<Rightarrow> int \<Rightarrow> 'p"
  fadd :: "'p \<Rightarrow> 'p \<Rightarrow> 'p"
  fround2 :: "'p \<Rightarrow> 'p"

record 'p cart_item =
  item_product_id :: int
  item_name :: string
  item_price :: 'p
  item_brand :: string
  item_image :: "string option"
  item_quantity :: int
  item_subtotal :: 'p

datatype 'p cart_view =
    ViewFailure string
  | CartView bool "'p cart_item list" int int 'p

definition price_line :: "'p float_ops \<Rightarrow> 'p product \<Rightarrow> cart_line \<Rightarrow> 'p cart_item" where
  "price_line ops product item =
     \<lparr>item_product_id = prod_id product,
      item_name = prod_name product,
      item_price = prod_price product,
      item_brand = prod_brand product,
      item_image = (case prod_images product of [] \<Rightarrow> None | img # _ \<Rightarrow> Some img),
      item_quantity = quantity item,
      item_subtotal = fmul ops (prod_price product) (quantity item)\<rparr>"

text \<open>\<^verbatim>\<open>db.query(Product).filter(Product.id == k).first()\<close>\<close>

definition query_product :: "'p database \<Rightarrow> int \<Rightarrow> 'p product option" where
  "query_product db k = find (\<lambda>p. prod_id p = k) (products db)"

fun cart_with_details ::
  "'p float_ops \<Rightarrow> 'p database \<Rightarrow> cart_line list \<Rightarrow> 'p cart_item list" where
  "cart_with_details ops db [] = []"
| "cart_with_details ops db (item # rest) =
     (case query_product db (product_id item) of
        Some product \<Rightarrow> price_line ops product item # cart_with_details ops db rest
      | None \<Rightarrow> cart_with_details ops db rest)"

text \<open>
  \<^verbatim>\<open>round(sum(...), 2)\<close>: the sum starts from the integer 0 and adds from the left;
  over no lines at all it stays the integer 0, which \<^verbatim>\<open>round\<close> returns as it is.
\<close>

definition rounded_total :: "('p::zero) float_ops \<Rightarrow> 'p list \<Rightarrow> 'p" where
  "rounded_total ops xs = (if xs = [] then 0 else fround2 ops (foldl (fadd ops) 0 xs))"

definition get_cart ::
  "('p::zero) float_ops \<Rightarrow> 'p database \<Rightarrow> string \<Rightarrow> 'p cart_view \<times> 'p database" where
  "get_cart ops db sid =
     (case get_session db sid of
        None \<Rightarrow> (ViewFailure ''Session not found'', db)
      | Some session \<Rightarrow>
          if cart session \<noteq> [] then
            (let details = cart_with_details ops db (cart session)
             in (CartView True details (int (length details))
                   (sum_list (map item_quantity details))
                   (rounded_total ops (map item_subtotal details)), db))
          else (CartView True [] 0 0 0, db))"

subsection \<open>Reading a cart back\<close>

text \<open>The lines that a session holds in the store (none for a missing session).\<close>

definition cart_of :: "'p database \<Rightarrow> string \<Rightarrow> cart_line list" where
  "cart_of db sid = (case get_session db sid of None \<Rightarrow> [] | Some s \<Rightarrow> cart s)"

text \<open>The lines of a cart for one product.\<close>

definition lines_for :: "int \<Rightarrow> cart_line list \<Rightarrow> cart_line list" where
  "lines_for pid c = filter (\<lambda>item. product_id item = pid) c"

text \<open>The invariant of the data model: at most one line per product identifier.\<close>

definition one_line_per_product :: "cart_line list \<Rightarrow> bool" where
  "one_line_per_product c = distinct (map product_id c)"

text \<open>
  The cart mutations that the engine offers, as they act on the lines of one session. A
  session starts with no lines (\<^verbatim>\<open>create_session\<close> stores \<^verbatim>\<open>cart=[]\<close>).
\<close>

datatype cart_op = AddItem int int string | RemoveItem int | SetQuantity int int | ClearCart

fun apply_op :: "cart_op \<Rightarrow> cart_line list \<Rightarrow> cart_line list" where
  "apply_op (AddItem pid q now) c = add_line pid q now c"
| "apply_op (RemoveItem pid) c = filter (\<lambda>item. product_id item \<noteq> pid) c"
| "apply_op (SetQuantity pid q) c = set_line_quantity pid q c"
| "apply_op ClearCart c = []"

text \<open>Overwriting the quantity of every line of a product.\<close>

definition with_quantity :: "int \<Rightarrow> int \<Rightarrow> cart_line list \<Rightarrow> cart_line list" where
  "with_quantity pid q c = map (\<lambda>l. if product_id l = pid then l\<lparr>quantity := q\<rparr> else l) c"

text \<open>The store with the cart column of one session overwritten.\<close>

definition store_cart :: "'p database \<Rightarrow> string \<Rightarrow> cart_line list \<Rightarrow> 'p database" where
  "store_cart db sid c =
     db\<lparr>chat_sessions :=
          update_first (\<lambda>s. session_id s = sid) (\<lambda>s. s\<lparr>cart := c\<rparr>) (chat_sessions db)\<rparr>"

subsection \<open>Example data\<close>

text \<open>
  Exact decimal arithmetic on rationals, for the examples: on their values (integers far
  below \<open>2 ^ 53\<close>) it agrees with binary floating point. \<^verbatim>\<open>round\<close> rounds half to even.
\<close>

definition round_half_even :: "rat \<Rightarrow> int" where
  "round_half_even x =
     (let f = \<lfloor>x\<rfloor>; d = x - of_int f
      in if d < 1 / 2 then f else if 1 / 2 < d then f + 1 else if even f then f else f + 1)"

definition exact_ops :: "rat float_ops" where
  "exact_ops = \<lparr>fmul = (\<lambda>x n. x * of_int n), fadd = (\<lambda>x y. x + y),
                 fround2 = (\<lambda>x. of_int (round_half_even (x * 100)) / 100)\<rparr>"

definition shop_products :: "rat product list" where
  "shop_products =
     [\<lparr>prod_id = 1, prod_name = ''Silk Dress'', prod_price = 10, prod_brand = ''Aurora'',
       prod_images = [''dress.jpg'']\<rparr>,
      \<lparr>prod_id = 2, prod_name = ''Leather Belt'', prod_price = 20, prod_brand = ''Boreal'',
       prod_images = []\<rparr>,
      \<lparr>prod_id = 3, prod_name = ''Wool Scarf'', prod_price = 30, prod_brand = ''Cirrus'',
       prod_images = [''scarf.jpg'', ''scarf2.jpg'']\<rparr>]"

definition shop_session :: "cart_line list \<Rightarrow> rat chat_session" where
  "shop_session c =
     \<lparr>session_id = ''session-1'', customer_id = None, channel = ''web'',
      session_context = [], messages = [], cart = c, is_active = True\<rparr>"

definition shop :: "cart_line list \<Rightarrow> rat database" where
  "shop c = \<lparr>chat_sessions = [shop_session c], products = shop_products, customers = []\<rparr>"

section \<open>Python operations on values\<close>

text \<open>
  An exception is a value: the class with its message. \<^verbatim>\<open>str(e)\<close> of a
  \<^verbatim>\<open>KeyError\<close> is the quoted key; of the others, the message.
\<close>

datatype error =
    KeyError string
  | TypeError string
  | AttributeError string
  | Raised string

fun error_str :: "error \<Rightarrow> string" where
  "error_str (KeyError k) = [CHR 0x27] @ k @ [CHR 0x27]"
| "error_str (TypeError m) = m"
| "error_str (AttributeError m) = m"
| "error_str (Raised m) = m"

text \<open>Sequencing: the first exception raised ends the computation.\<close>

definition and_then :: "error + 'a \<Rightarrow> ('a \<Rightarrow> error + 'b) \<Rightarrow> error + 'b" where
  "and_then m f = (case m of Inl e \<Rightarrow> Inl e | Inr x \<Rightarrow> f x)"

text \<open>A list comprehension whose element expression may raise.\<close>

fun map_err :: "('a \<Rightarrow> error + 'b) \<Rightarrow> 'a list \<Rightarrow> error + 'b list" where
  "map_err f [] = Inr []"
| "map_err f (x # xs) =
     (case f x of
        Inl e \<Rightarrow> Inl e
      | Inr y \<Rightarrow> (case map_err f xs of Inl e \<Rightarrow> Inl e | Inr ys \<Rightarrow> Inr (y # ys)))"

fun type_name :: "'p json \<Rightarrow> string" where
  "type_name JNone = ''NoneType''"
| "type_name (JBool b) = ''bool''"
| "type_name (JInt n) = ''int''"
| "type_name (JFloat x) = ''float''"
| "type_name (JStr s) = ''str''"
| "type_name (JList xs) = ''list''"
| "type_name (JDict d) = ''dict''"

definition no_attribute :: "'p json \<Rightarrow> string \<Rightarrow> error" where
  "no_attribute v a =
     AttributeError ([CHR 0x27] @ type_name v @ [CHR 0x27] @ '' object has no attribute ''
                     @ [CHR 0x27] @ a @ [CHR 0x27])"

text \<open>Truth value of a Python object.\<close>

fun truthy :: "('p::zero) json \<Rightarrow> bool" where
  "truthy JNone = False"
| "truthy (JBool b) = b"
| "truthy (JInt n) = (n \<noteq> 0)"
| "truthy (JFloat x) = (x \<noteq> 0)"
| "truthy (JStr s) = (s \<noteq> [])"
| "truthy (JList xs) = (xs \<noteq> [])"
| "truthy (JDict d) = (d \<noteq> [])"

text \<open>\<^verbatim>\<open>d.get(k, default)\<close>, \<^verbatim>\<open>d.get(k)\<close>, \<^verbatim>\<open>k in d\<close> and \<^verbatim>\<open>d[k] = v\<close> on a dictionary.\<close>

definition dict_get :: "'p dict \<Rightarrow> string \<Rightarrow> 'p json \<Rightarrow> 'p json" where
  "dict_get d k dflt = (case map_of d k of None \<Rightarrow> dflt | Some v \<Rightarrow> v)"

definition dict_get_none :: "'p dict \<Rightarrow> string \<Rightarrow> 'p json" where
  "dict_get_none d k = dict_get d k JNone"

definition dict_has :: "'p dict \<Rightarrow> string \<Rightarrow> bool" where
  "dict_has d k = (map_of d k \<noteq> None)"

definition dict_set :: "'p dict \<Rightarrow> string \<Rightarrow> 'p json \<Rightarrow> 'p dict" where
  "dict_set d k v = AList.update k v d"

text \<open>\<^verbatim>\<open>x.get(k, default)\<close> and \<^verbatim>\<open>x[k]\<close> on an object that may not be a dictionary.\<close>

fun py_get :: "'p json \<Rightarrow> string \<Rightarrow> 'p json \<Rightarrow> error + 'p json" where
  "py_get (JDict d) k dflt = Inr (dict_get d k dflt)"
| "py_get v k dflt = Inl (no_attribute v ''get'')"

fun py_item :: "'p json \<Rightarrow> string \<Rightarrow> error + 'p json" where
  "py_item (JDict d) k = (case map_of d k of None \<Rightarrow> Inl (KeyError k) | Some v \<Rightarrow> Inr v)"
| "py_item (JStr s) k = Inl (TypeError ''string indices must be integers'')"
| "py_item (JList xs) k = Inl (TypeError ''list indices must be integers or slices, not str'')"
| "py_item v k =
     Inl (TypeError ([CHR 0x27] @ type_name v @ [CHR 0x27] @ '' object is not subscriptable''))"

text \<open>
  \<^verbatim>\<open>for x in v[:n]\<close>: the first \<open>n\<close> elements of a list, or characters of a string; any
  other object cannot be sliced. The message of that exception differs between Python
  versions; a fixed text stands for it.
\<close>

fun slice_items :: "nat \<Rightarrow> 'p json \<Rightarrow> error + 'p json list" where
  "slice_items n (JList xs) = Inr (take n xs)"
| "slice_items n (JStr s) = Inr (map (\<lambda>c. JStr [c]) (take n s))"
| "slice_items n v = Inl (TypeError (type_name v @ '' cannot be sliced''))"

text \<open>\<^verbatim>\<open>for x in v\<close>: elements of a list, characters of a string, keys of a dictionary.\<close>

fun iter_items :: "'p json \<Rightarrow> error + 'p json list" where
  "iter_items (JList xs) = Inr xs"
| "iter_items (JStr s) = Inr (map (\<lambda>c. JStr [c]) s)"
| "iter_items (JDict d) = Inr (map (\<lambda>kv. JStr (fst kv)) d)"
| "iter_items v =
     Inl (TypeError ([CHR 0x27] @ type_name v @ [CHR 0x27] @ '' object is not iterable''))"


text \<open>Decimal digits of an integer: \<^verbatim>\<open>str(n)\<close>.\<close>

fun digits :: "nat \<Rightarrow> string" where
  "digits n = (if n < 10 then [char_of (48 + n)] else digits (n div 10) @ [char_of (48 + n mod 10)])"

definition str_int :: "int \<Rightarrow> string" where
  "str_int n = (if n < 0 then CHR ''-'' # digits (nat (- n)) else digits (nat n))"

section \<open>Channel adapters (services/channel\_adapters.py)\<close>

text \<open>
  Characters of the source's literals beyond Latin-1 are written as their UTF-8 bytes.
  They occur in produced text only.
\<close>

definition nl :: string where "nl = [CHR 0x0A]"
definition sparkles :: string where "sparkles = [CHR 0xE2, CHR 0x9C, CHR 0xA8]"
definition bullet :: string where "bullet = [CHR 0xE2, CHR 0x80, CHR 0xA2]"




text \<open>
  \<^verbatim>\<open>_truncate_text\<close>: \<^verbatim>\<open>len\<close> works on strings, lists and dictionaries; an over-long
  string is cut and given an ellipsis, an over-long list or dictionary cannot be.
\<close>

fun truncate_text :: "'p json \<Rightarrow> nat \<Rightarrow> error + 'p json" where
  "truncate_text (JStr s) max_length =
     (if length s \<le> max_length then Inr (JStr s)
      else Inr (JStr (take (max_length - 3) s @ ''...'')))"
| "truncate_text (JList xs) max_length =
     (if length xs \<le> max_length then Inr (JList xs)
      else Inl (TypeError (''can only concatenate list (not '' @ [CHR 0x22] @ ''str''
                        @ [CHR 0x22] @ '') to list'')))"
| "truncate_text (JDict d) max_length =
     (if length d \<le> max_length then Inr (JDict d)
      else Inl (TypeError ''dict cannot be sliced''))"
| "truncate_text v max_length =
     Inl (TypeError (''object of type '' @ [CHR 0x27] @ type_name v @ [CHR 0x27] @ '' has no len()''))"

subsection \<open>Web chat\<close>









subsection \<open>WhatsApp\<close>


text \<open>\<^verbatim>\<open>enumerate(xs, 1)\<close>\<close>

definition enumerate1 :: "'a list \<Rightarrow> (nat \<times> 'a) list" where
  "enumerate1 xs = zip [1 ..< Suc (length xs)] xs"






definition whatsapp_rec_entry :: "('p json \<Rightarrow> string) \<Rightarrow> nat \<times> 'p json \<Rightarrow> error + string" where
  "whatsapp_rec_entry to_str entry =
     (let i = fst entry; rec = snd entry
      in and_then (py_item rec ''name'') (\<lambda>name.
         and_then (py_item rec ''price'') (\<lambda>price.
         and_then (py_get rec ''brand'' (JStr '''')) (\<lambda>brand.
         and_then (py_get rec ''reason'' (JStr '''')) (\<lambda>reason.
         and_then (truncate_text reason 80) (\<lambda>short.
           Inr (str_int (int i) @ ''. *'' @ to_str name @ ''*'' @ nl
                @ ''   $'' @ to_str price @ '' | '' @ to_str brand @ nl
                @ ''   '' @ to_str short @ nl @ nl)))))))"

text \<open>The entries that the loop of \<^verbatim>\<open>format_recommendations\<close> appends to the text.\<close>

definition whatsapp_entries :: "('p json \<Rightarrow> string) \<Rightarrow> 'p json \<Rightarrow> error + string list" where
  "whatsapp_entries to_str recommendations =
     and_then (slice_items 3 recommendations) (\<lambda>recs.
       map_err (whatsapp_rec_entry to_str) (enumerate1 recs))"

definition whatsapp_format_recommendations ::
  "('p json \<Rightarrow> string) \<Rightarrow> 'p json \<Rightarrow> error + string" where
  "whatsapp_format_recommendations to_str recommendations =
     and_then (whatsapp_entries to_str recommendations) (\<lambda>entries.
       Inr (sparkles @ '' *Recommended Products:*'' @ nl @ nl @ concat entries))"

subsection \<open>In-store kiosk\<close>








subsection \<open>Mobile app\<close>







subsection \<open>Dispatch on the adapter\<close>





subsection \<open>The caps on recommendations, as the specification gives them\<close>




section \<open>The world of one turn\<close>

text \<open>
  What a turn consults outside the code modelled here: the text generation of the sales
  agent (\<^verbatim>\<open>_build_system_prompt\<close> and \<^verbatim>\<open>_call_ai\<close>), the recommendation, loyalty and
  payment agents, the stock check of one product, the clock, Python's \<^verbatim>\<open>str\<close> of a
  value, float arithmetic, and the database. Each call may raise.
\<close>

record 'p env =
  call_ai :: "'p json \<Rightarrow> 'p json \<Rightarrow> error + string"
  recommendation_agent :: "'p dict \<Rightarrow> error + 'p dict"
  availability_check :: "'p json \<Rightarrow> 'p json \<Rightarrow> 'p json \<Rightarrow> error + 'p json"
  loyalty_agent :: "'p json \<Rightarrow> error + 'p dict"
  payment_agent :: "'p json \<Rightarrow> 'p json \<Rightarrow> 'p json \<Rightarrow> 'p json \<Rightarrow> 'p json \<Rightarrow> error + 'p dict"
  clock_checked :: string
  clock_response :: string
  str_of :: "'p json \<Rightarrow> string"
  float_arith :: "'p float_ops"
  store :: "'p database"

section \<open>Sales agent (agents/sales\_agent.py)\<close>

record sales_response =
  sr_response :: string
  sr_intent :: string
  sr_suggestions :: "string list"
  sr_next_actions :: "string list"
  sr_requires_worker_agents :: "string list"

definition extract_suggestions :: "string \<Rightarrow> string \<Rightarrow> string list" where
  "extract_suggestions ai_response intent =
     (let response_lower = lower ai_response;
          s1 = (if str_in ''dress'' response_lower then [''Browse Dresses''] else []);
          s2 = s1 @ (if str_in ''shoes'' response_lower \<or> str_in ''footwear'' response_lower
                     then [''Browse Shoes''] else []);
          s3 = s2 @ (if str_in ''accessories'' response_lower \<or> str_in ''jewelry'' response_lower
                     then [''Browse Accessories''] else []);
          s4 = s3 @ (if intent = ''browsing'' then [''See Recommendations'']
                     else if intent = ''purchase_intent'' then [''View Cart'', ''Checkout'']
                     else if intent = ''needs_help'' then [''Talk to Specialist'']
                     else [])
      in take 3 s4)"

definition sales_next_actions :: "string \<Rightarrow> string list" where
  "sales_next_actions intent =
     (if intent = ''browsing'' then [''get_recommendations'', ''check_inventory'']
      else if intent = ''purchase_intent'' then [''prepare_checkout'', ''apply_discounts'']
      else if intent = ''needs_help'' then [''check_inventory'', ''get_product_details'']
      else [])"

definition needs_worker_agents :: "string \<Rightarrow> string list" where
  "needs_worker_agents intent =
     (if intent \<in> set [''browsing'', ''general''] then [''recommendation'', ''inventory'']
      else if intent = ''purchase_intent'' then [''inventory'', ''loyalty'', ''payment'']
      else if intent = ''needs_help'' then [''inventory'']
      else [])"

definition sales_execute :: "'p env \<Rightarrow> 'p dict \<Rightarrow> error + sales_response" where
  "sales_execute env ctx =
     (let message = dict_get ctx ''message'' (JStr '''');
          customer_info = dict_get ctx ''customer_info'' (JDict [])
      in and_then (call_ai env customer_info message) (\<lambda>ai_response.
           case message of
             JStr m \<Rightarrow>
               (let intent = detect_intent m
                in Inr \<lparr>sr_response = ai_response, sr_intent = intent,
                        sr_suggestions = extract_suggestions ai_response intent,
                        sr_next_actions = sales_next_actions intent,
                        sr_requires_worker_agents = needs_worker_agents intent\<rparr>)
           | _ \<Rightarrow> Inl (no_attribute message ''lower'')))"

section \<open>Inventory agent (agents/inventory\_agent.py)\<close>

text \<open>The loop of \<^verbatim>\<open>execute\<close> over the product identifiers.\<close>

fun check_products ::
  "'p env \<Rightarrow> 'p dict \<Rightarrow> 'p json \<Rightarrow> 'p json list \<Rightarrow> 'p dict \<Rightarrow> error + 'p dict" where
  "check_products env quantities customer_location [] availability_results =
     Inr availability_results"
| "check_products env quantities customer_location (pid # rest) availability_results =
     (let quantity_needed = dict_get quantities (str_of env pid) (JInt 1)
      in and_then (availability_check env pid quantity_needed customer_location) (\<lambda>availability.
           check_products env quantities customer_location rest
             (dict_set availability_results (str_of env pid) availability)))"

text \<open>
  \<^verbatim>\<open>InventoryAgent.execute\<close>, reached through \<^verbatim>\<open>check_multiple_products\<close>. Its
  \<^verbatim>\<open>try\<close> turns every exception into a failure record.
\<close>

definition inventory_execute :: "('p::zero) env \<Rightarrow> 'p json \<Rightarrow> 'p dict \<Rightarrow> 'p json \<Rightarrow> 'p dict" where
  "inventory_execute env product_ids quantities customer_location =
     (if \<not> truthy product_ids then
        [(''success'', JBool False), (''message'', JStr ''No products specified''),
         (''availability'', JDict [])]
      else
        (case and_then (iter_items product_ids)
                (\<lambda>ids. check_products env quantities customer_location ids []) of
           Inr availability_results \<Rightarrow>
             [(''success'', JBool True), (''availability'', JDict availability_results),
              (''checked_at'', JStr (clock_checked env))]
         | Inl e \<Rightarrow>
             [(''success'', JBool False),
              (''message'', JStr (''Inventory check failed: '' @ error_str e)),
              (''availability'', JDict [])]))"

section \<open>Orchestrator (agents/orchestrator.py)\<close>

definition occasions :: "(string \<times> string list) list" where
  "occasions =
     [(''wedding'', [''wedding'', ''marriage'', ''bridal'']),
      (''birthday'', [''birthday'', ''bday'']),
      (''work'', [''work'', ''office'', ''professional'', ''job'']),
      (''party'', [''party'', ''celebration'', ''event'']),
      (''date'', [''date'', ''romantic'', ''dinner'']),
      (''casual'', [''casual'', ''everyday'', ''weekend''])]"

definition extract_occasion :: "'p json \<Rightarrow> error + 'p json" where
  "extract_occasion message =
     (case message of
        JStr m \<Rightarrow>
          (case find (\<lambda>entry. any_word_in (snd entry) (lower m)) occasions of
             Some entry \<Rightarrow> Inr (JStr (fst entry))
           | None \<Rightarrow> Inr (JStr ''''))
      | _ \<Rightarrow> Inl (no_attribute message ''lower''))"

text \<open>\<^verbatim>\<open>results[key] = await worker(...)\<close>\<close>

definition put_result ::
  "'p dict \<Rightarrow> string \<Rightarrow> error + 'p dict \<Rightarrow> error + 'p dict" where
  "put_result results k call = and_then call (\<lambda>r. Inr (dict_set results k (JDict r)))"

definition handle_browsing ::
  "('p::zero) env \<Rightarrow> 'p dict \<Rightarrow> string list \<Rightarrow> error + 'p dict" where
  "handle_browsing env ctx required_agents =
     and_then
       (if ''recommendation'' \<in> set required_agents then
          and_then (extract_occasion (dict_get ctx ''message'' (JStr ''''))) (\<lambda>occasion.
            put_result [] ''recommendations''
              (recommendation_agent env
                 [(''customer_info'', dict_get ctx ''customer_info'' (JDict [])),
                  (''occasion'', occasion),
                  (''budget'', dict_get_none ctx ''budget''),
                  (''category'', dict_get_none ctx ''category'')]))
        else Inr []) (\<lambda>r1.
     and_then
       (if ''inventory'' \<in> set required_agents \<and> truthy (dict_get_none r1 ''recommendations'')
        then
          and_then (py_get (dict_get_none r1 ''recommendations'') ''recommendations'' (JList []))
            (\<lambda>recommended_products.
               if truthy recommended_products then
                 and_then (slice_items 3 recommended_products) (\<lambda>ps.
                 and_then (map_err (\<lambda>p. py_item p ''product_id'') ps) (\<lambda>product_ids.
                   Inr (dict_set r1 ''inventory''
                          (JDict (inventory_execute env (JList product_ids) []
                                    (dict_get ctx ''location'' (JStr ''online'')))))))
               else Inr r1)
        else Inr r1) (\<lambda>r2.
       if truthy (dict_get_none ctx ''customer_id'')
       then put_result r2 ''loyalty'' (loyalty_agent env (dict_get_none ctx ''customer_id''))
       else Inr r2))"

text \<open>The dictionary comprehension of \<^verbatim>\<open>_handle_purchase\<close>: a later key overwrites.\<close>

definition quantity_entry :: "'p env \<Rightarrow> 'p json \<Rightarrow> error + string \<times> 'p json" where
  "quantity_entry env item =
     and_then (py_item item ''product_id'') (\<lambda>pid.
     and_then (py_get item ''quantity'' (JInt 1)) (\<lambda>q. Inr (str_of env pid, q)))"

definition dict_of_entries :: "(string \<times> 'p json) list \<Rightarrow> 'p dict" where
  "dict_of_entries entries = foldl (\<lambda>d kv. dict_set d (fst kv) (snd kv)) [] entries"

definition handle_purchase ::
  "('p::zero) env \<Rightarrow> 'p dict \<Rightarrow> string list \<Rightarrow> error + 'p dict" where
  "handle_purchase env ctx required_agents =
     (let cart_items = dict_get ctx ''cart_items'' (JList [])
      in and_then
           (if ''inventory'' \<in> set required_agents \<and> truthy cart_items then
              and_then (iter_items cart_items) (\<lambda>items.
              and_then (map_err (\<lambda>item. py_item item ''product_id'') items) (\<lambda>product_ids.
              and_then (map_err (quantity_entry env) items) (\<lambda>entries.
                Inr (dict_set [] ''inventory''
                       (JDict (inventory_execute env (JList product_ids) (dict_of_entries entries)
                                 (dict_get ctx ''location'' (JStr ''online''))))))))
            else Inr []) (\<lambda>r1.
         and_then
           (if ''loyalty'' \<in> set required_agents \<and> truthy (dict_get_none ctx ''customer_id'')
            then put_result r1 ''loyalty'' (loyalty_agent env (dict_get_none ctx ''customer_id''))
            else Inr r1) (\<lambda>r2.
           if ''payment'' \<in> set required_agents \<and> truthy cart_items
           then put_result r2 ''payment''
                  (payment_agent env cart_items (dict_get_none ctx ''customer_id'')
                     (dict_get ctx ''payment_method'' (JStr ''card''))
                     (dict_get ctx ''apply_loyalty'' (JBool True))
                     (dict_get_none ctx ''coupon_code''))
           else Inr r2)))"

definition handle_help ::
  "('p::zero) env \<Rightarrow> 'p dict \<Rightarrow> string list \<Rightarrow> error + 'p dict" where
  "handle_help env ctx required_agents =
     (if ''inventory'' \<in> set required_agents then
        (let product_ids = dict_get ctx ''product_ids'' (JList [])
         in if truthy product_ids then
              Inr (dict_set [] ''inventory''
                     (JDict (inventory_execute env product_ids []
                               (dict_get ctx ''location'' (JStr ''online'')))))
            else Inr [])
      else Inr [])"

subsection \<open>Synthesis\<close>

text \<open>\<^verbatim>\<open>v[:n]\<close> as a value.\<close>

fun py_slice :: "nat \<Rightarrow> 'p json \<Rightarrow> error + 'p json" where
  "py_slice n (JList xs) = Inr (JList (take n xs))"
| "py_slice n (JStr s) = Inr (JStr (take n s))"
| "py_slice n v = Inl (TypeError (type_name v @ '' cannot be sliced''))"

text \<open>
  The dictionary that \<^verbatim>\<open>get_cart\<close> returns. The integer 0 of a sum over no lines is
  written as the float zero, which it equals.
\<close>

definition item_json :: "'p cart_item \<Rightarrow> 'p json" where
  "item_json i =
     JDict [(''product_id'', JInt (item_product_id i)),
            (''name'', JStr (item_name i)),
            (''price'', JFloat (item_price i)),
            (''brand'', JStr (item_brand i)),
            (''image'', (case item_image i of None \<Rightarrow> JNone | Some img \<Rightarrow> JStr img)),
            (''quantity'', JInt (item_quantity i)),
            (''subtotal'', JFloat (item_subtotal i))]"

fun cart_view_json :: "'p cart_view \<Rightarrow> 'p dict" where
  "cart_view_json (ViewFailure m) = [(''success'', JBool False), (''message'', JStr m)]"
| "cart_view_json (CartView ok items n items_total subtotal) =
     [(''success'', JBool ok), (''cart'', JList (map item_json items)),
      (''cart_count'', JInt n), (''total_items'', JInt items_total),
      (''subtotal'', JFloat subtotal)]"

text \<open>
  \<^verbatim>\<open>ContextManager().get_cart(session_id)\<close> on the turn's session identifier. An
  identifier that is not a string matches no row.
\<close>

definition cart_for :: "('p::zero) env \<Rightarrow> 'p json \<Rightarrow> 'p cart_view" where
  "cart_for env sid =
     (case sid of
        JStr s \<Rightarrow> fst (get_cart (float_arith env) (store env) s)
      | _ \<Rightarrow> ViewFailure ''Session not found'')"

definition action :: "string \<Rightarrow> string \<Rightarrow> string \<Rightarrow> 'p json" where
  "action t l d = JDict [(''type'', JStr t), (''label'', JStr l), (''description'', JStr d)]"

definition determine_next_actions :: "string \<Rightarrow> ('p::zero) dict \<Rightarrow> error + 'p json list" where
  "determine_next_actions intent worker_results =
     (if intent = ''browsing'' then
        (if truthy (dict_get_none worker_results ''recommendations'') then
           Inr [action ''view_product'' ''View Details'' ''See more about these items'',
                action ''add_to_cart'' ''Add to Cart'' ''Add items you like'']
         else Inr [])
      else if intent = ''purchase_intent'' then
        (let a1 = (if truthy (dict_get_none worker_results ''inventory'') then
                     [action ''proceed_checkout'' ''Proceed to Checkout'' ''Complete your purchase'']
                   else [])
         in if truthy (dict_get_none worker_results ''payment'') then
              and_then (py_get (dict_get_none worker_results ''payment'') ''success'' JNone) (\<lambda>ok.
                if truthy ok then
                  Inr (a1 @ [action ''view_order'' ''View Order'' ''See your order details''])
                else Inr a1)
            else Inr a1)
      else Inr [])"

definition add_recommendations :: "('p::zero) dict \<Rightarrow> 'p dict \<Rightarrow> error + 'p dict" where
  "add_recommendations worker_results response =
     (if dict_has worker_results ''recommendations'' then
        (let rec_data = dict_get_none worker_results ''recommendations''
         in and_then (py_get rec_data ''success'' JNone) (\<lambda>ok.
              if truthy ok then
                and_then (py_get rec_data ''recommendations'' (JList [])) (\<lambda>recs.
                and_then (py_slice 3 recs) (\<lambda>top.
                and_then (py_get rec_data ''total_items'' (JInt 0)) (\<lambda>n.
                  Inr (dict_set (dict_set response ''recommendations'' top)
                         ''total_recommendations'' n))))
              else Inr response))
      else Inr response)"

definition add_inventory :: "('p::zero) dict \<Rightarrow> 'p dict \<Rightarrow> error + 'p dict" where
  "add_inventory worker_results response =
     (if dict_has worker_results ''inventory'' then
        (let inv_data = dict_get_none worker_results ''inventory''
         in and_then (py_get inv_data ''success'' JNone) (\<lambda>ok.
              if truthy ok then
                and_then (py_get inv_data ''data'' (JDict [])) (\<lambda>data.
                and_then (py_get data ''availability'' (JDict [])) (\<lambda>availability.
                  Inr (dict_set response ''inventory_status'' availability)))
              else Inr response))
      else Inr response)"

definition add_loyalty :: "('p::zero) dict \<Rightarrow> 'p dict \<Rightarrow> error + 'p dict" where
  "add_loyalty worker_results response =
     (if dict_has worker_results ''loyalty'' then
        (let loyalty_data = dict_get_none worker_results ''loyalty''
         in and_then (py_get loyalty_data ''success'' JNone) (\<lambda>ok.
              if truthy ok then
                and_then (py_get loyalty_data ''loyalty_tier'' JNone) (\<lambda>tier.
                and_then (py_get loyalty_data ''loyalty_points'' JNone) (\<lambda>points.
                and_then (py_get loyalty_data ''benefits'' JNone) (\<lambda>benefits.
                  Inr (dict_set response ''loyalty_info''
                         (JDict [(''tier'', tier), (''points'', points),
                                 (''benefits'', benefits)])))))
              else Inr response))
      else Inr response)"

definition add_payment :: "'p dict \<Rightarrow> 'p dict \<Rightarrow> 'p dict" where
  "add_payment worker_results response =
     (if dict_has worker_results ''payment''
      then dict_set response ''payment_result'' (dict_get_none worker_results ''payment'')
      else response)"

definition add_cart :: "('p::zero) env \<Rightarrow> 'p dict \<Rightarrow> 'p dict \<Rightarrow> 'p dict" where
  "add_cart env ctx response =
     (if truthy (dict_get_none ctx ''session_id'') then
        (let cart_data = cart_view_json (cart_for env (dict_get_none ctx ''session_id''))
         in if truthy (dict_get_none cart_data ''success'')
            then dict_set response ''cart'' (JDict cart_data)
            else response)
      else response)"

definition synthesize_response ::
  "('p::zero) env \<Rightarrow> sales_response \<Rightarrow> 'p dict \<Rightarrow> 'p dict \<Rightarrow> error + 'p dict" where
  "synthesize_response env sales worker_results ctx =
     (let response =
            [(''success'', JBool True),
             (''message'', JStr (sr_response sales)),
             (''intent'', JStr (sr_intent sales)),
             (''suggestions'', JList (map JStr (sr_suggestions sales))),
             (''timestamp'', JStr (clock_response env))]
      in and_then (add_recommendations worker_results response) (\<lambda>r1.
         and_then (add_inventory worker_results r1) (\<lambda>r2.
         and_then (add_loyalty worker_results r2) (\<lambda>r3.
           (let r4 = add_payment worker_results r3;
                r5 = add_cart env ctx r4
            in and_then (determine_next_actions (sr_intent sales) worker_results) (\<lambda>actions.
                 Inr (dict_set r5 ''actions'' (JList actions))))))))"

subsection \<open>The turn\<close>

text \<open>
  The class defines \<^verbatim>\<open>execute\<close> twice; the later definition, with the cart-viewing
  branch, is the one in force.
\<close>

definition cart_text :: "'p env \<Rightarrow> 'p cart_item \<Rightarrow> string" where
  "cart_text env i =
     bullet @ '' '' @ item_name i @ '' x'' @ str_int (item_quantity i) @ '' - $''
       @ str_of env (JFloat (item_subtotal i)) @ nl"

definition view_cart :: "('p::zero) env \<Rightarrow> 'p dict \<Rightarrow> sales_response \<Rightarrow> sales_response" where
  "view_cart env ctx sales =
     (if truthy (dict_get_none ctx ''session_id'') then
        (case cart_for env (dict_get_none ctx ''session_id'') of
           CartView ok items n items_total subtotal \<Rightarrow>
             if ok \<and> 0 < n then
               sales\<lparr>sr_response :=
                 ''You have '' @ str_int n @ '' items in your cart:'' @ nl
                   @ concat (map (cart_text env) items)
                   @ nl @ ''Subtotal: $'' @ str_of env (JFloat subtotal)\<rparr>
             else
               sales\<lparr>sr_response :=
                 ''Your cart is empty. Would you like me to recommend some items?''\<rparr>
         | ViewFailure m \<Rightarrow>
             sales\<lparr>sr_response :=
               ''Your cart is empty. Would you like me to recommend some items?''\<rparr>)
      else sales)"

text \<open>The body of the \<^verbatim>\<open>try\<close> block of \<^verbatim>\<open>execute\<close>.\<close>

definition turn :: "('p::zero) env \<Rightarrow> 'p dict \<Rightarrow> error + 'p dict" where
  "turn env ctx =
     and_then
       (sales_execute env
          [(''message'', dict_get ctx ''message'' (JStr '''')),
           (''customer_info'', dict_get ctx ''customer_info'' (JDict [])),
           (''conversation_history'', dict_get ctx ''conversation_history'' (JList []))])
       (\<lambda>sales.
          (let intent = sr_intent sales; required_agents = sr_requires_worker_agents sales
           in if intent = ''browsing'' then
                and_then (handle_browsing env ctx required_agents)
                  (\<lambda>worker_results. synthesize_response env sales worker_results ctx)
              else if intent = ''purchase_intent'' then
                and_then (handle_purchase env ctx required_agents)
                  (\<lambda>worker_results. synthesize_response env sales worker_results ctx)
              else if intent = ''needs_help'' then
                and_then (handle_help env ctx required_agents)
                  (\<lambda>worker_results. synthesize_response env sales worker_results ctx)
              else if intent = ''view_cart'' then
                synthesize_response env (view_cart env ctx sales) [] ctx
              else synthesize_response env sales [] ctx))"

definition apology :: string where
  "apology = ''I'' @ [CHR 0x27]
     @ ''m having trouble processing that right now. Let me help you differently.''"

text \<open>\<^verbatim>\<open>except Exception as e\<close>: the record that replaces a failed turn.\<close>

definition failure_record :: "error \<Rightarrow> 'p dict" where
  "failure_record e =
     [(''success'', JBool False), (''response'', JStr apology), (''error'', JStr (error_str e))]"

definition execute :: "('p::zero) env \<Rightarrow> 'p dict \<Rightarrow> error + 'p dict" where
  "execute env ctx =
     (case turn env ctx of
        Inr final_response \<Rightarrow> Inr final_response
      | Inl e \<Rightarrow> Inr (failure_record e))"

text \<open>\<^verbatim>\<open>db.query(Customer).filter(Customer.id == customer_id).first()\<close>\<close>

definition query_customer :: "'p database \<Rightarrow> 'p json \<Rightarrow> 'p customer option" where
  "query_customer db cid =
     (case cid of
        JInt n \<Rightarrow> find (\<lambda>c. cust_id c = n) (customers db)
      | _ \<Rightarrow> None)"

definition customer_info_json :: "'p customer \<Rightarrow> 'p json" where
  "customer_info_json c =
     JDict [(''name'', JStr (cust_name c)),
            (''loyalty_tier'', JStr (loyalty_tier c)),
            (''preferences'', JDict (preferences c)),
            (''loyalty_points'', JInt (loyalty_points c))]"

text \<open>
  \<^verbatim>\<open>handle_conversation\<close>. The keyword arguments \<open>kwargs\<close> hold keys other than the four
  named parameters.
\<close>

definition handle_conversation ::
  "('p::zero) env \<Rightarrow> 'p json \<Rightarrow> 'p json \<Rightarrow> 'p json \<Rightarrow> 'p json \<Rightarrow> 'p dict \<Rightarrow> error + 'p dict"
  where
  "handle_conversation env message cid sid cart_items kwargs =
     (let ctx0 = foldl (\<lambda>d kv. dict_set d (fst kv) (snd kv))
                   [(''message'', message), (''customer_id'', cid), (''session_id'', sid),
                    (''cart_items'', (if truthy cart_items then cart_items else JList []))]
                   kwargs;
          ctx1 = (if truthy cid then
                    (case query_customer (store env) cid of
                       Some c \<Rightarrow> dict_set ctx0 ''customer_info'' (customer_info_json c)
                     | None \<Rightarrow> ctx0)
                  else ctx0)
      in execute env ctx1)"


subsection \<open>An example world\<close>

fun show_json :: "rat json \<Rightarrow> string" where
  "show_json (JInt n) = str_int n"
| "show_json (JStr s) = s"
| "show_json v = ''?''"

definition demo_env :: "rat env" where
  "demo_env =
     \<lparr>call_ai = (\<lambda>customer_info message. Inr ''Great choice!''),
      recommendation_agent = (\<lambda>c. Inr [(''success'', JBool True), (''recommendations'', JList []),
                                         (''total_items'', JInt 0)]),
      availability_check = (\<lambda>pid needed location.
         Inr (JDict [(''product_id'', pid), (''available'', JBool True),
                     (''quantity_requested'', needed)])),
      loyalty_agent = (\<lambda>cid. Inr [(''success'', JBool False), (''message'', JStr ''Customer not found'')]),
      payment_agent = (\<lambda>cart_items cid method apply_loyalty coupon.
         Inr [(''success'', JBool True), (''order_id'', JStr ''ORD-1'')]),
      clock_checked = ''2024-05-01T10:00:00'',
      clock_response = ''2024-05-01T10:00:01'',
      str_of = show_json,
      float_arith = exact_ops,
      store = shop []\<rparr>"

text \<open>One key of a returned record, when a record is returned.\<close>

definition field :: "string \<Rightarrow> error + 'p dict \<Rightarrow> error + 'p json" where
  "field k m = and_then m (\<lambda>r. Inr (dict_get_none r k))"

definition has_field :: "string \<Rightarrow> error + 'p dict \<Rightarrow> error + bool" where
  "has_field k m = and_then m (\<lambda>r. Inr (dict_has r k))"

text \<open>A purchase turn with one cart item, and one whose cart item lacks its product.\<close>

definition purchase_context :: "rat json \<Rightarrow> rat dict" where
  "purchase_context cart_items =
     [(''message'', JStr ''I want to buy this''), (''customer_id'', JNone),
      (''session_id'', JNone), (''cart_items'', cart_items)]"

definition purchase_sales :: sales_response where
  "purchase_sales =
     \<lparr>sr_response = ''Great choice!'', sr_intent = ''purchase_intent'',
      sr_suggestions = [''View Cart'', ''Checkout''],
      sr_next_actions = [''prepare_checkout'', ''apply_discounts''],
      sr_requires_worker_agents = [''inventory'', ''loyalty'', ''payment'']\<rparr>"

section \<open>Facts about strings\<close>

lemma str_in_sublist: "str_in w s = sublist w s"
  by (induction s) (auto simp: sublist_Cons_right)

lemma str_in_middle: "str_in w (pre @ w @ post)"
  by (simp add: str_in_sublist)

lemma lower_append: "lower (xs @ ys) = lower xs @ lower ys"
  by (simp add: lower_def)

lemma lower_char_cart:
  "lower_char (CHR ''c'') = CHR ''c''" "lower_char (CHR ''C'') = CHR ''c''"
  "lower_char (CHR ''a'') = CHR ''a''" "lower_char (CHR ''A'') = CHR ''a''"
  "lower_char (CHR ''r'') = CHR ''r''" "lower_char (CHR ''R'') = CHR ''r''"
  "lower_char (CHR ''t'') = CHR ''t''" "lower_char (CHR ''T'') = CHR ''t''"
  by code_simp+

section \<open>Intent classification: theorems\<close>

text \<open>
  C2. The specification says that the classifier labels the text
  \<^verbatim>\<open>What's my order status, I need help\<close> as \<^verbatim>\<open>needs_help\<close>. The code does not:
  the lowered text contains the purchase keyword \<^verbatim>\<open>order\<close>, and the purchase
  keywords are tried before the help keywords.
\<close>

theorem order_status_not_needs_help:
  "detect_intent ''What's my order status, I need help'' \<noteq> ''needs_help''"
  by code_simp

text \<open>
  C2, as the code has it: the text \<^verbatim>\<open>What's my order status, I need help\<close> is
  labelled \<^verbatim>\<open>purchase_intent\<close>.
\<close>

theorem order_status_is_purchase_intent:
  "detect_intent ''What's my order status, I need help'' = ''purchase_intent''"
  by code_simp

text \<open>
  C4. Every text that contains \<^verbatim>\<open>cart\<close> in any mix of upper and lower case is labelled
  \<^verbatim>\<open>view_cart\<close>, whatever else it contains; and on every text the classifier returns
  the label of the first keyword set, in the order cart viewing, purchase, browsing,
  help, greeting, complaint, that has a keyword in the lowered text, and
  \<^verbatim>\<open>general\<close> when none has.
\<close>

theorem detect_intent_priority:
  "detect_intent message = classify_spec message \<and>
   (\<forall>pre post c a r t.
      c \<in> {CHR ''c'', CHR ''C''} \<and> a \<in> {CHR ''a'', CHR ''A''} \<and>
      r \<in> {CHR ''r'', CHR ''R''} \<and> t \<in> {CHR ''t'', CHR ''T''} \<longrightarrow>
      detect_intent (pre @ [c, a, r, t] @ post) = ''view_cart'')"
proof
  show "detect_intent message = classify_spec message"
    by (simp add: detect_intent_def classify_spec_def intent_priority_def Let_def)
next
  show "\<forall>pre post c a r t.
      c \<in> {CHR ''c'', CHR ''C''} \<and> a \<in> {CHR ''a'', CHR ''A''} \<and>
      r \<in> {CHR ''r'', CHR ''R''} \<and> t \<in> {CHR ''t'', CHR ''T''} \<longrightarrow>
      detect_intent (pre @ [c, a, r, t] @ post) = ''view_cart''"
  proof (intro allI impI)
    fix pre post :: string and c a r t :: char
    assume h: "c \<in> {CHR ''c'', CHR ''C''} \<and> a \<in> {CHR ''a'', CHR ''A''} \<and>
      r \<in> {CHR ''r'', CHR ''R''} \<and> t \<in> {CHR ''t'', CHR ''T''}"
    then have "lower [c, a, r, t] = ''cart''"
      by (auto simp: lower_def lower_char_cart)
    then have "lower (pre @ [c, a, r, t] @ post) = lower pre @ ''cart'' @ lower post"
      by (simp only: lower_append)
    then have "str_in ''cart'' (lower (pre @ [c, a, r, t] @ post))"
      by (simp only: str_in_middle)
    then have "any_word_in cart_words (lower (pre @ [c, a, r, t] @ post))"
      by (simp add: any_word_in_def cart_words_def)
    then show "detect_intent (pre @ [c, a, r, t] @ post) = ''view_cart''"
      by (simp add: detect_intent_def Let_def)
  qed
qed

theorem detect_intent_priority_witness:
  "CHR ''C'' \<in> {CHR ''c'', CHR ''C''} \<and> CHR ''a'' \<in> {CHR ''a'', CHR ''A''} \<and>
   CHR ''R'' \<in> {CHR ''r'', CHR ''R''} \<and> CHR ''t'' \<in> {CHR ''t'', CHR ''T''} \<and>
   detect_intent (''I need help, buy my '' @ [CHR ''C'', CHR ''a'', CHR ''R'', CHR ''t''] @ '' now'')
     = ''view_cart''"
proof -
  have h: "CHR ''C'' \<in> {CHR ''c'', CHR ''C''} \<and> CHR ''a'' \<in> {CHR ''a'', CHR ''A''} \<and>
      CHR ''R'' \<in> {CHR ''r'', CHR ''R''} \<and> CHR ''t'' \<in> {CHR ''t'', CHR ''T''}"
    by simp
  from detect_intent_priority [of "[]"] have
    "\<forall>pre post c a r t.
      c \<in> {CHR ''c'', CHR ''C''} \<and> a \<in> {CHR ''a'', CHR ''A''} \<and>
      r \<in> {CHR ''r'', CHR ''R''} \<and> t \<in> {CHR ''t'', CHR ''T''} \<longrightarrow>
      detect_intent (pre @ [c, a, r, t] @ post) = ''view_cart''"
    by (rule conjunct2)
  then have "detect_intent (''I need help, buy my '' @ [CHR ''C'', CHR ''a'', CHR ''R'', CHR ''t''] @ '' now'')
     = ''view_cart''"
    using h by blast
  with h show ?thesis by blast
qed

section \<open>Facts about the session store\<close>

lemma find_update_first:
  "find P xs = Some x \<Longrightarrow> P (f x) \<Longrightarrow> find P (update_first P f xs) = Some (f x)"
  by (induction xs) (auto split: if_splits)

lemma update_first_same:
  "find P xs = Some x \<Longrightarrow> f x = x \<Longrightarrow> update_first P f xs = xs"
  by (induction xs) (auto split: if_splits)

lemma assign_cart [simp]:
  "assign_columns None None (Some c) None s = s\<lparr>cart := c\<rparr>"
  by (simp add: assign_columns_def)

lemma get_session_id: "get_session db sid = Some s \<Longrightarrow> session_id s = sid"
  unfolding get_session_def by (auto dest: find_Some_iff[THEN iffD1])

lemma update_session_cart:
  assumes "get_session db sid = Some s"
  shows "update_session db sid None None (Some c) None = (True, store_cart db sid c)"
proof -
  have f: "find (\<lambda>s. session_id s = sid) (chat_sessions db) = Some s"
    using assms by (simp add: get_session_def)
  have e: "assign_columns None None (Some c) None = (\<lambda>s. s\<lparr>cart := c\<rparr>)"
    by (rule ext) simp
  show ?thesis
    by (simp add: update_session_def f e store_cart_def)
qed

lemma get_session_store_cart:
  assumes "get_session db sid = Some s"
  shows "get_session (store_cart db sid c) sid = Some (s\<lparr>cart := c\<rparr>)"
proof -
  have f: "find (\<lambda>s. session_id s = sid) (chat_sessions db) = Some s"
    using assms by (simp add: get_session_def)
  have "session_id (s\<lparr>cart := c\<rparr>) = sid"
    using get_session_id[OF assms] by simp
  then show ?thesis
    by (simp add: get_session_def store_cart_def find_update_first[OF f])
qed

lemma cart_of_store_cart:
  "get_session db sid = Some s \<Longrightarrow> cart_of (store_cart db sid c) sid = c"
  by (simp add: cart_of_def get_session_store_cart)

lemma store_cart_twice:
  "store_cart (store_cart db sid c1) sid c2 = store_cart db sid c2"
proof -
  have "update_first (\<lambda>s. session_id s = sid) (\<lambda>s. s\<lparr>cart := c2\<rparr>)
          (update_first (\<lambda>s. session_id s = sid) (\<lambda>s. s\<lparr>cart := c1\<rparr>) rows)
        = update_first (\<lambda>s. session_id s = sid) (\<lambda>s. s\<lparr>cart := c2\<rparr>) rows"
    for rows :: "'a chat_session list"
    by (induction rows) auto
  then show ?thesis by (simp add: store_cart_def)
qed

lemma store_cart_same:
  assumes "get_session db sid = Some s"
  shows "store_cart db sid (cart s) = db"
proof -
  have "find (\<lambda>s. session_id s = sid) (chat_sessions db) = Some s"
    using assms by (simp add: get_session_def)
  then have "update_first (\<lambda>r. session_id r = sid) (\<lambda>r. r\<lparr>cart := cart s\<rparr>) (chat_sessions db)
             = chat_sessions db"
    by (rule update_first_same) simp
  then show ?thesis by (simp add: store_cart_def)
qed

lemma add_to_cart_found:
  assumes "get_session db sid = Some s"
  shows "add_to_cart db sid pid q now =
    (CartReply True (add_line pid q now (cart s)) (int (length (add_line pid q now (cart s))))
       (sum_list (map quantity (add_line pid q now (cart s)))),
     store_cart db sid (add_line pid q now (cart s)))"
  by (simp add: add_to_cart_def assms update_session_cart[OF assms] Let_def)

lemma remove_from_cart_found:
  assumes "get_session db sid = Some s"
  shows "remove_from_cart db sid pid =
    (let c = filter (\<lambda>item. product_id item \<noteq> pid) (cart s)
     in (CartReply True c (int (length c)) (sum_list (map quantity c)), store_cart db sid c))"
  by (simp add: remove_from_cart_def assms update_session_cart[OF assms] Let_def)

lemma update_cart_quantity_found:
  assumes "get_session db sid = Some s"
  shows "update_cart_quantity db sid pid q =
    (let c = set_line_quantity pid q (cart s)
     in (CartReply True c (int (length c)) (sum_list (map quantity c)), store_cart db sid c))"
  by (simp add: update_cart_quantity_def assms update_session_cart[OF assms] Let_def)

section \<open>Facts about cart lines\<close>

lemma find_line_None: "(find (\<lambda>item. product_id item = pid) c = None) = (lines_for pid c = [])"
  by (induction c) (auto simp: lines_for_def)

lemma increment_first_absent:
  "lines_for pid c = [] \<Longrightarrow> increment_first pid q (c @ [l]) = c @ increment_first pid q [l]"
  by (induction c) (auto simp: lines_for_def split: if_splits)

lemma increment_first_twice:
  "increment_first pid q2 (increment_first pid q1 c) = increment_first pid (q1 + q2) c"
  by (induction c) auto

lemma find_increment_first:
  "find (\<lambda>item. product_id item = pid) (increment_first pid q c) =
     map_option (\<lambda>l. l\<lparr>quantity := quantity l + q\<rparr>) (find (\<lambda>item. product_id item = pid) c)"
  by (induction c) auto

lemma map_id_increment_first [simp]:
  "map product_id (increment_first pid q c) = map product_id c"
  by (induction c) auto

lemma map_id_assign_first [simp]:
  "map product_id (assign_first pid q c) = map product_id c"
  by (induction c) auto

lemma assign_first_distinct:
  "distinct (map product_id c) \<Longrightarrow> assign_first pid q c = with_quantity pid q c"
proof (induction c)
  case Nil then show ?case by (simp add: with_quantity_def)
next
  case (Cons a c)
  have "product_id a = pid \<Longrightarrow>
        map (\<lambda>l. if product_id l = pid then l\<lparr>quantity := q\<rparr> else l) c = c"
    using Cons.prems by (intro map_idI) (auto simp: image_iff)
  with Cons show ?case by (auto simp: with_quantity_def)
qed

lemma remove1_distinct:
  "distinct (map product_id c) \<Longrightarrow> find (\<lambda>item. product_id item = pid) c = Some item \<Longrightarrow>
   remove1 item c = filter (\<lambda>item. product_id item \<noteq> pid) c"
proof (induction c)
  case Nil then show ?case by simp
next
  case (Cons a c)
  show ?case
  proof (cases "product_id a = pid")
    case True
    then have "item = a" using Cons.prems by simp
    moreover have "filter (\<lambda>item. product_id item \<noteq> pid) c = c"
      using Cons.prems True by (intro filter_True) (auto simp: image_iff)
    ultimately show ?thesis using True by simp
  next
    case False
    then have "item \<noteq> a" using Cons.prems by (auto dest: find_Some_iff[THEN iffD1])
    then show ?thesis using Cons False by simp
  qed
qed

lemma filter_absent:
  "lines_for pid c = [] \<Longrightarrow> filter (\<lambda>item. product_id item \<noteq> pid) c = c"
  by (induction c) (auto simp: lines_for_def split: if_splits)

lemma with_quantity_absent: "lines_for pid c = [] \<Longrightarrow> with_quantity pid q c = c"
  by (induction c) (auto simp: lines_for_def with_quantity_def split: if_splits)

lemma add_line_twice:
  "add_line pid q2 t2 (add_line pid q1 t1 c) = add_line pid (q1 + q2) t1 c"
proof (cases "find (\<lambda>item. product_id item = pid) c")
  case None
  then have a: "lines_for pid c = []" by (simp add: find_line_None)
  have "find (\<lambda>item. product_id item = pid)
          (c @ [\<lparr>product_id = pid, quantity = q1, added_at = t1\<rparr>]) \<noteq> None"
    by (auto simp: find_None_iff)
  then show ?thesis
    using None increment_first_absent[OF a] by (auto simp: add_line_def split: option.splits)
next
  case (Some l)
  then show ?thesis
    by (simp add: add_line_def find_increment_first increment_first_twice)
qed

lemma lines_for_add_line_new:
  "lines_for pid c = [] \<Longrightarrow>
   lines_for pid (add_line pid q now c) = [\<lparr>product_id = pid, quantity = q, added_at = now\<rparr>]"
  using find_line_None[of pid c] by (simp add: add_line_def lines_for_def)

lemma find_add_line:
  "find (\<lambda>item. product_id item = pid) (add_line pid q now c) =
     Some (case find (\<lambda>item. product_id item = pid) c of
             None \<Rightarrow> \<lparr>product_id = pid, quantity = q, added_at = now\<rparr>
           | Some l \<Rightarrow> l\<lparr>quantity := quantity l + q\<rparr>)"
proof (cases "find (\<lambda>item. product_id item = pid) c")
  case None
  then have "\<forall>x\<in>set c. product_id x \<noteq> pid" by (simp add: find_None_iff)
  then have "find (\<lambda>item. product_id item = pid) (c @ [l]) = find (\<lambda>item. product_id item = pid) [l]"
    for l by (induction c) auto
  then show ?thesis using None by (simp add: add_line_def)
next
  case (Some l)
  then show ?thesis by (simp add: add_line_def find_increment_first)
qed

text \<open>Every cart mutation keeps the invariant of at most one line per product.\<close>

lemma add_line_keeps_invariant:
  "one_line_per_product c \<Longrightarrow> one_line_per_product (add_line pid q now c)"
  by (auto simp: one_line_per_product_def add_line_def find_None_iff split: option.splits)

lemma remove_keeps_invariant:
  "one_line_per_product c \<Longrightarrow>
   one_line_per_product (filter (\<lambda>item. product_id item \<noteq> pid) c)"
  by (simp add: one_line_per_product_def distinct_map_filter)

lemma set_line_quantity_keeps_invariant:
  "one_line_per_product c \<Longrightarrow> one_line_per_product (set_line_quantity pid q c)"
  by (auto simp: one_line_per_product_def set_line_quantity_def remove1_distinct
      distinct_map_filter split: option.splits)

text \<open>
  So every cart that the engine builds from a new session has at most one line per
  product, and the mutations on the store are these operations on the session's lines.
\<close>

lemma apply_op_keeps_invariant:
  "one_line_per_product c \<Longrightarrow> one_line_per_product (apply_op op c)"
  by (cases op)
    (simp_all add: add_line_keeps_invariant remove_keeps_invariant
      set_line_quantity_keeps_invariant, simp add: one_line_per_product_def)

lemma apply_ops_keep_invariant:
  "one_line_per_product c \<Longrightarrow> one_line_per_product (foldl (\<lambda>c op. apply_op op c) c ops)"
  by (induction ops arbitrary: c) (simp_all add: apply_op_keeps_invariant)

lemma engine_carts_have_one_line_per_product:
  "one_line_per_product (foldl (\<lambda>c op. apply_op op c) [] ops)"
  by (rule apply_ops_keep_invariant) (simp add: one_line_per_product_def)

lemma mutations_are_cart_ops:
  assumes "get_session db sid = Some s"
  shows "cart_of (snd (add_to_cart db sid pid q now)) sid = apply_op (AddItem pid q now) (cart s)"
    and "cart_of (snd (remove_from_cart db sid pid)) sid = apply_op (RemoveItem pid) (cart s)"
    and "cart_of (snd (update_cart_quantity db sid pid q)) sid
           = apply_op (SetQuantity pid q) (cart s)"
    and "cart_of (snd (clear_cart db sid)) sid = apply_op ClearCart (cart s)"
  by (simp_all add: add_to_cart_found[OF assms] remove_from_cart_found[OF assms]
      update_cart_quantity_found[OF assms] clear_cart_def update_session_cart[OF assms]
      cart_of_store_cart[OF assms] Let_def)

section \<open>Cart engine: theorems\<close>

text \<open>
  C5. The specification says that for every existing session adding 2 and then 3 of a
  product leaves exactly one line of that product, with quantity 5. A session that
  already holds one of product 7 ends with a line of quantity 6.
\<close>

theorem add_twice_on_existing_line:
  "map quantity
     (lines_for 7
        (cart_of
           (snd (add_to_cart
                   (snd (add_to_cart
                           (shop [\<lparr>product_id = 7, quantity = 1, added_at = ''09:00''\<rparr>])
                           ''session-1'' 7 2 ''10:00''))
                   ''session-1'' 7 3 ''11:00''))
           ''session-1'')) = [6]"
  by (simp add: add_to_cart_def add_line_def get_session_def update_session_def
      assign_columns_def cart_of_def lines_for_def shop_def shop_session_def Let_def)

text \<open>
  C5, as the code has it. For every existing session, adding 2 and then 3 of a product
  leaves the store exactly as one add of 5 at the time of the first add does. If the cart
  held no line of the product, it now holds exactly one, with quantity 5; if it held a
  line, the first such line has its quantity raised by 5. A repeated add increments the
  line and appends none: a cart with at most one line per product stays so.
\<close>

theorem add_twice_is_add_of_sum:
  assumes "get_session db sid = Some s"
  shows "snd (add_to_cart (snd (add_to_cart db sid pid 2 t1)) sid pid 3 t2)
           = snd (add_to_cart db sid pid 5 t1) \<and>
         (lines_for pid (cart s) = [] \<longrightarrow>
            lines_for pid (cart_of (snd (add_to_cart db sid pid 5 t1)) sid)
              = [\<lparr>product_id = pid, quantity = 5, added_at = t1\<rparr>]) \<and>
         (\<forall>l. find (\<lambda>item. product_id item = pid) (cart s) = Some l \<longrightarrow>
            find (\<lambda>item. product_id item = pid) (cart_of (snd (add_to_cart db sid pid 5 t1)) sid)
              = Some (l\<lparr>quantity := quantity l + 5\<rparr>)) \<and>
         (one_line_per_product (cart s) \<longrightarrow>
            one_line_per_product (cart_of (snd (add_to_cart db sid pid 5 t1)) sid))"
proof -
  let ?c1 = "add_line pid 2 t1 (cart s)"
  have s1: "get_session (store_cart db sid ?c1) sid = Some (s\<lparr>cart := ?c1\<rparr>)"
    by (rule get_session_store_cart[OF assms])
  have "snd (add_to_cart (snd (add_to_cart db sid pid 2 t1)) sid pid 3 t2)
        = store_cart (store_cart db sid ?c1) sid (add_line pid 3 t2 ?c1)"
    by (simp add: add_to_cart_found[OF assms] add_to_cart_found[OF s1])
  also have "\<dots> = store_cart db sid (add_line pid 5 t1 (cart s))"
    by (simp add: store_cart_twice add_line_twice)
  also have "\<dots> = snd (add_to_cart db sid pid 5 t1)"
    by (simp add: add_to_cart_found[OF assms])
  finally have one: "snd (add_to_cart (snd (add_to_cart db sid pid 2 t1)) sid pid 3 t2)
           = snd (add_to_cart db sid pid 5 t1)" .
  have c: "cart_of (snd (add_to_cart db sid pid 5 t1)) sid = add_line pid 5 t1 (cart s)"
    by (simp add: add_to_cart_found[OF assms] cart_of_store_cart[OF assms])
  show ?thesis
    unfolding c using one
    by (auto simp: lines_for_add_line_new find_add_line add_line_keeps_invariant)
qed

theorem add_twice_is_add_of_sum_witness:
  "get_session (shop []) ''session-1'' = Some (shop_session []) \<and>
   lines_for 7 (cart (shop_session [])) = [] \<and>
   one_line_per_product (cart (shop_session [])) \<and>
   snd (add_to_cart (snd (add_to_cart (shop []) ''session-1'' 7 2 ''10:00''))
          ''session-1'' 7 3 ''11:00'')
     = snd (add_to_cart (shop []) ''session-1'' 7 5 ''10:00'') \<and>
   lines_for 7 (cart_of (snd (add_to_cart (shop []) ''session-1'' 7 5 ''10:00'')) ''session-1'')
     = [\<lparr>product_id = 7, quantity = 5, added_at = ''10:00''\<rparr>] \<and>
   one_line_per_product
     (cart_of (snd (add_to_cart (shop []) ''session-1'' 7 5 ''10:00'')) ''session-1'')"
proof -
  have h: "get_session (shop []) ''session-1'' = Some (shop_session [])"
    by (simp add: get_session_def shop_def shop_session_def)
  have e: "lines_for 7 (cart (shop_session [])) = []"
    by (simp add: lines_for_def shop_session_def)
  have d: "one_line_per_product (cart (shop_session []))"
    by (simp add: one_line_per_product_def shop_session_def)
  show ?thesis
    using add_twice_is_add_of_sum[OF h, of 7 "''10:00''" "''11:00''"] h e d by blast
qed

text \<open>
  C7. For every existing session whose cart has at most one line per product (the
  invariant of the data model, which every cart mutation keeps): setting a quantity
  \<open>\<le> 0\<close> returns the same reply and leaves the same store as removing the product;
  setting a quantity \<open>> 0\<close> succeeds and stores the cart with the quantity of the
  product's line overwritten; and removing a product that has no line succeeds, returns
  the cart as it was and leaves the store unchanged.
\<close>

theorem set_quantity_and_remove:
  assumes "get_session db sid = Some s" and "one_line_per_product (cart s)"
  shows "(q \<le> 0 \<longrightarrow> update_cart_quantity db sid pid q = remove_from_cart db sid pid) \<and>
         (0 < q \<longrightarrow>
            update_cart_quantity db sid pid q
              = (CartReply True (with_quantity pid q (cart s))
                   (int (length (with_quantity pid q (cart s))))
                   (sum_list (map quantity (with_quantity pid q (cart s)))),
                 store_cart db sid (with_quantity pid q (cart s))) \<and>
            cart_of (snd (update_cart_quantity db sid pid q)) sid
              = with_quantity pid q (cart s)) \<and>
         (lines_for pid (cart s) = [] \<longrightarrow>
            remove_from_cart db sid pid
              = (CartReply True (cart s) (int (length (cart s)))
                   (sum_list (map quantity (cart s))), db))"
proof (intro conjI impI)
  assume "q \<le> 0"
  then have "set_line_quantity pid q (cart s)
               = filter (\<lambda>item. product_id item \<noteq> pid) (cart s)"
    using assms(2) find_line_None[of pid "cart s"]
    by (auto simp: set_line_quantity_def one_line_per_product_def remove1_distinct
        filter_absent split: option.splits)
  then show "update_cart_quantity db sid pid q = remove_from_cart db sid pid"
    by (simp add: update_cart_quantity_found[OF assms(1)] remove_from_cart_found[OF assms(1)] Let_def)
next
  assume "0 < q"
  then have e: "set_line_quantity pid q (cart s) = with_quantity pid q (cart s)"
    using assms(2) find_line_None[of pid "cart s"]
    by (auto simp: set_line_quantity_def one_line_per_product_def assign_first_distinct
        with_quantity_absent split: option.splits)
  show "update_cart_quantity db sid pid q
              = (CartReply True (with_quantity pid q (cart s))
                   (int (length (with_quantity pid q (cart s))))
                   (sum_list (map quantity (with_quantity pid q (cart s)))),
                 store_cart db sid (with_quantity pid q (cart s)))"
    by (simp add: update_cart_quantity_found[OF assms(1)] e Let_def)
  then show "cart_of (snd (update_cart_quantity db sid pid q)) sid = with_quantity pid q (cart s)"
    by (simp add: cart_of_store_cart[OF assms(1)])
next
  assume "lines_for pid (cart s) = []"
  then show "remove_from_cart db sid pid
              = (CartReply True (cart s) (int (length (cart s)))
                   (sum_list (map quantity (cart s))), db)"
    by (simp add: remove_from_cart_found[OF assms(1)] filter_absent store_cart_same[OF assms(1)] Let_def)
qed

text \<open>
  C8. Pricing a cart writes nothing: the store that \<^verbatim>\<open>get_cart\<close> leaves is the store it
  was given, for every session identifier, also when lines of missing products are
  dropped from the view.
\<close>

theorem get_cart_leaves_store: "snd (get_cart ops db sid) = db"
  by (simp add: get_cart_def Let_def split: option.splits)

text \<open>
  C10. \<^verbatim>\<open>add_to_cart\<close> validates no quantity: for every existing session and every
  integer quantity it reports success and stores the quantity as given. The first line
  of the product in the stored cart is a new line with exactly that quantity, or the
  former line with the quantity added, whatever its sign.
\<close>

theorem add_to_cart_any_quantity:
  assumes "get_session db sid = Some s"
  shows "fst (add_to_cart db sid pid q now)
           = CartReply True (cart_of (snd (add_to_cart db sid pid q now)) sid)
               (int (length (cart_of (snd (add_to_cart db sid pid q now)) sid)))
               (sum_list (map quantity (cart_of (snd (add_to_cart db sid pid q now)) sid))) \<and>
         find (\<lambda>item. product_id item = pid) (cart_of (snd (add_to_cart db sid pid q now)) sid)
           = Some (case find (\<lambda>item. product_id item = pid) (cart s) of
                     None \<Rightarrow> \<lparr>product_id = pid, quantity = q, added_at = now\<rparr>
                   | Some l \<Rightarrow> l\<lparr>quantity := quantity l + q\<rparr>)"
  by (simp add: add_to_cart_found[OF assms] cart_of_store_cart[OF assms] find_add_line)

theorem set_quantity_and_remove_witness:
  "get_session (shop [\<lparr>product_id = 1, quantity = 2, added_at = ''09:00''\<rparr>,
                      \<lparr>product_id = 2, quantity = 1, added_at = ''09:30''\<rparr>]) ''session-1''
     = Some (shop_session [\<lparr>product_id = 1, quantity = 2, added_at = ''09:00''\<rparr>,
                           \<lparr>product_id = 2, quantity = 1, added_at = ''09:30''\<rparr>]) \<and>
   one_line_per_product
     (cart (shop_session [\<lparr>product_id = 1, quantity = 2, added_at = ''09:00''\<rparr>,
                          \<lparr>product_id = 2, quantity = 1, added_at = ''09:30''\<rparr>])) \<and>
   update_cart_quantity
     (shop [\<lparr>product_id = 1, quantity = 2, added_at = ''09:00''\<rparr>,
            \<lparr>product_id = 2, quantity = 1, added_at = ''09:30''\<rparr>]) ''session-1'' 1 0
     = remove_from_cart
         (shop [\<lparr>product_id = 1, quantity = 2, added_at = ''09:00''\<rparr>,
                \<lparr>product_id = 2, quantity = 1, added_at = ''09:30''\<rparr>]) ''session-1'' 1 \<and>
   cart_of (snd (update_cart_quantity
        (shop [\<lparr>product_id = 1, quantity = 2, added_at = ''09:00''\<rparr>,
               \<lparr>product_id = 2, quantity = 1, added_at = ''09:30''\<rparr>]) ''session-1'' 2 4))
     ''session-1''
     = [\<lparr>product_id = 1, quantity = 2, added_at = ''09:00''\<rparr>,
        \<lparr>product_id = 2, quantity = 4, added_at = ''09:30''\<rparr>] \<and>
   remove_from_cart
     (shop [\<lparr>product_id = 1, quantity = 2, added_at = ''09:00''\<rparr>,
            \<lparr>product_id = 2, quantity = 1, added_at = ''09:30''\<rparr>]) ''session-1'' 9
     = (CartReply True [\<lparr>product_id = 1, quantity = 2, added_at = ''09:00''\<rparr>,
                        \<lparr>product_id = 2, quantity = 1, added_at = ''09:30''\<rparr>] 2 3,
        shop [\<lparr>product_id = 1, quantity = 2, added_at = ''09:00''\<rparr>,
              \<lparr>product_id = 2, quantity = 1, added_at = ''09:30''\<rparr>])"
proof -
  let ?c = "[\<lparr>product_id = 1, quantity = 2, added_at = ''09:00''\<rparr>,
             \<lparr>product_id = 2, quantity = 1, added_at = ''09:30''\<rparr>]"
  have h: "get_session (shop ?c) ''session-1'' = Some (shop_session ?c)"
    by (simp add: get_session_def shop_def shop_session_def)
  have d: "one_line_per_product (cart (shop_session ?c))"
    by (simp add: one_line_per_product_def shop_session_def)
  have c: "cart (shop_session ?c) = ?c"
    by (simp add: shop_session_def)
  have a: "update_cart_quantity (shop ?c) ''session-1'' 1 0
             = remove_from_cart (shop ?c) ''session-1'' 1"
    using set_quantity_and_remove[OF h d, of 0 1] by simp
  have p: "(0::int) < 4" by simp
  have "cart_of (snd (update_cart_quantity (shop ?c) ''session-1'' 2 4)) ''session-1''
             = with_quantity 2 4 (cart (shop_session ?c))"
    using set_quantity_and_remove[OF h d, of 4 2] p by blast
  then have b: "cart_of (snd (update_cart_quantity (shop ?c) ''session-1'' 2 4)) ''session-1''
             = [\<lparr>product_id = 1, quantity = 2, added_at = ''09:00''\<rparr>,
                \<lparr>product_id = 2, quantity = 4, added_at = ''09:30''\<rparr>]"
    by (simp add: c with_quantity_def)
  have r: "remove_from_cart (shop ?c) ''session-1'' 9 = (CartReply True ?c 2 3, shop ?c)"
    using set_quantity_and_remove[OF h d, of 0 9] by (simp add: c lines_for_def)
  show ?thesis using h d a b r by blast
qed

theorem add_to_cart_any_quantity_witness:
  "get_session (shop []) ''session-1'' = Some (shop_session []) \<and>
   fst (add_to_cart (shop []) ''session-1'' 7 0 ''10:00'')
     = CartReply True [\<lparr>product_id = 7, quantity = 0, added_at = ''10:00''\<rparr>] 1 0 \<and>
   get_session (shop [\<lparr>product_id = 7, quantity = 1, added_at = ''09:00''\<rparr>]) ''session-1''
     = Some (shop_session [\<lparr>product_id = 7, quantity = 1, added_at = ''09:00''\<rparr>]) \<and>
   find (\<lambda>item. product_id item = 7)
     (cart_of (snd (add_to_cart (shop [\<lparr>product_id = 7, quantity = 1, added_at = ''09:00''\<rparr>])
                      ''session-1'' 7 (- 5) ''10:00'')) ''session-1'')
     = Some \<lparr>product_id = 7, quantity = - 4, added_at = ''09:00''\<rparr>"
proof -
  have h: "get_session (shop []) ''session-1'' = Some (shop_session [])"
    by (simp add: get_session_def shop_def shop_session_def)
  have c: "cart_of (snd (add_to_cart (shop []) ''session-1'' 7 0 ''10:00'')) ''session-1''
             = [\<lparr>product_id = 7, quantity = 0, added_at = ''10:00''\<rparr>]"
    by (simp add: add_to_cart_def add_line_def get_session_def update_session_def
        assign_columns_def cart_of_def shop_def shop_session_def Let_def)
  have a: "fst (add_to_cart (shop []) ''session-1'' 7 0 ''10:00'')
     = CartReply True [\<lparr>product_id = 7, quantity = 0, added_at = ''10:00''\<rparr>] 1 0"
    using add_to_cart_any_quantity[OF h, of 7 0 "''10:00''"] by (simp add: c)
  let ?c = "[\<lparr>product_id = 7, quantity = 1, added_at = ''09:00''\<rparr>]"
  have h2: "get_session (shop ?c) ''session-1'' = Some (shop_session ?c)"
    by (simp add: get_session_def shop_def shop_session_def)
  have b: "find (\<lambda>item. product_id item = 7)
     (cart_of (snd (add_to_cart (shop ?c) ''session-1'' 7 (- 5) ''10:00'')) ''session-1'')
     = Some \<lparr>product_id = 7, quantity = - 4, added_at = ''09:00''\<rparr>"
    using add_to_cart_any_quantity[OF h2, of 7 "- 5" "''10:00''"]
    by (simp add: shop_session_def)
  show ?thesis using h a h2 b by blast
qed





section \<open>Facts about Python values\<close>

lemma and_then_Inr [simp]: "and_then (Inr x) f = f x"
  by (simp add: and_then_def)

lemma and_then_Inl [simp]: "and_then (Inl e) f = Inl e"
  by (simp add: and_then_def)

lemma and_then_eq_Inr:
  "(and_then m f = Inr y) = (\<exists>x. m = Inr x \<and> f x = Inr y)"
  by (cases m) auto


lemma dict_get_dict_set:
  "dict_get (dict_set d k v) k' dflt = (if k' = k then v else dict_get d k' dflt)"
  by (simp add: dict_get_def dict_set_def update_conv')

lemma dict_get_none_dict_set:
  "dict_get_none (dict_set d k v) k' = (if k' = k then v else dict_get_none d k')"
  by (simp add: dict_get_none_def dict_get_dict_set)

lemma length_enumerate1 [simp]: "length (enumerate1 xs) = length xs"
  by (auto simp: enumerate1_def not_less_eq_eq)

section \<open>Channel adapters: theorems\<close>









section \<open>Orchestrator: theorems\<close>

lemma check_products_nonempty:
  "check_products env q loc ids acc = Inr r \<Longrightarrow> ids \<noteq> [] \<or> acc \<noteq> [] \<Longrightarrow> r \<noteq> []"
proof (induction ids arbitrary: acc)
  case Nil
  then show ?case by simp
next
  case (Cons pid rest)
  from Cons.prems(1) obtain a where
    "check_products env q loc rest (dict_set acc (str_of env pid) a) = Inr r"
    by (auto simp: and_then_eq_Inr Let_def)
  moreover have "dict_set acc (str_of env pid) a \<noteq> []"
    by (cases acc) (auto simp: dict_set_def)
  ultimately show ?case using Cons.IH by blast
qed

lemma iter_items_nonempty:
  "truthy v \<Longrightarrow> iter_items v = Inr ids \<Longrightarrow> ids \<noteq> []"
  by (cases v) auto

lemma inventory_execute_success:
  assumes "truthy (dict_get_none (inventory_execute env ids q loc) ''success'')"
  shows "\<exists>a. a \<noteq> [] \<and>
           inventory_execute env ids q loc
             = [(''success'', JBool True), (''availability'', JDict a),
                (''checked_at'', JStr (clock_checked env))]"
proof (cases "truthy ids")
  case False
  then show ?thesis
    using assms by (simp add: inventory_execute_def dict_get_none_def dict_get_def)
next
  case True
  show ?thesis
  proof (cases "and_then (iter_items ids) (\<lambda>xs. check_products env q loc xs [])")
    case (Inl e)
    then show ?thesis
      using assms True by (simp add: inventory_execute_def dict_get_none_def dict_get_def)
  next
    case (Inr a)
    then obtain xs where x: "iter_items ids = Inr xs" "check_products env q loc xs [] = Inr a"
      by (auto simp: and_then_eq_Inr)
    have "xs \<noteq> []" using iter_items_nonempty[OF True x(1)] .
    then have "a \<noteq> []" using check_products_nonempty[OF x(2)] by blast
    then show ?thesis
      using Inr True by (simp add: inventory_execute_def)
  qed
qed

lemma add_inventory_of_worker:
  assumes "dict_get_none worker_results ''inventory'' = JDict (inventory_execute env ids q loc)"
    and "dict_has worker_results ''inventory''"
    and "truthy (dict_get_none (inventory_execute env ids q loc) ''success'')"
  shows "add_inventory worker_results response
           = Inr (dict_set response ''inventory_status'' (JDict []))"
proof -
  obtain a where "inventory_execute env ids q loc
             = [(''success'', JBool True), (''availability'', JDict a),
                (''checked_at'', JStr (clock_checked env))]"
    using inventory_execute_success[OF assms(3)] by blast
  then show ?thesis
    using assms(1,2) by (simp add: add_inventory_def dict_get_def Let_def)
qed

lemma add_loyalty_keeps:
  "add_loyalty worker_results r = Inr r' \<Longrightarrow> k \<noteq> ''loyalty_info'' \<Longrightarrow>
   dict_get_none r' k = dict_get_none r k"
  by (auto simp: add_loyalty_def and_then_eq_Inr dict_get_none_dict_set Let_def
      split: if_splits)

lemma add_payment_keeps:
  "k \<noteq> ''payment_result'' \<Longrightarrow>
   dict_get_none (add_payment worker_results r) k = dict_get_none r k"
  by (simp add: add_payment_def dict_get_none_dict_set)

lemma add_cart_keeps:
  "k \<noteq> ''cart'' \<Longrightarrow> dict_get_none (add_cart env ctx r) k = dict_get_none r k"
  by (simp add: add_cart_def dict_get_none_dict_set Let_def)

text \<open>
  C1. The specification says that the synthesized response carries the availability map
  of a successful inventory worker under \<^verbatim>\<open>inventory_status\<close>. The worker returns the
  map under the key \<^verbatim>\<open>availability\<close> of its result, and on success the map is not
  empty; the synthesizer looks for it under \<^verbatim>\<open>data\<close>, a key the worker's result never
  has. So whenever the inventory worker ran and succeeded, the synthesized
  \<^verbatim>\<open>inventory_status\<close> is the empty dictionary and differs from the worker's map.
\<close>

theorem inventory_status_is_empty:
  assumes "dict_get_none worker_results ''inventory'' = JDict (inventory_execute env ids q loc)"
    and "dict_has worker_results ''inventory''"
    and "truthy (dict_get_none (inventory_execute env ids q loc) ''success'')"
    and "synthesize_response env sales worker_results ctx = Inr r"
  shows "dict_get_none r ''inventory_status'' = JDict [] \<and>
         dict_get_none r ''inventory_status''
           \<noteq> dict_get_none (inventory_execute env ids q loc) ''availability''"
proof -
  obtain a where a: "a \<noteq> []" "inventory_execute env ids q loc
             = [(''success'', JBool True), (''availability'', JDict a),
                (''checked_at'', JStr (clock_checked env))]"
    using inventory_execute_success[OF assms(3)] by blast
  from assms(4) obtain r1 r3 actions where
    s: "add_inventory worker_results r1 = Inr (dict_set r1 ''inventory_status'' (JDict []))"
       "add_loyalty worker_results (dict_set r1 ''inventory_status'' (JDict [])) = Inr r3"
       "r = dict_set (add_cart env ctx (add_payment worker_results r3)) ''actions'' (JList actions)"
    by (auto simp: synthesize_response_def and_then_eq_Inr Let_def
        add_inventory_of_worker[OF assms(1,2,3)])
  have "dict_get_none r ''inventory_status'' = dict_get_none r3 ''inventory_status''"
    by (simp add: s(3) dict_get_none_dict_set add_cart_keeps add_payment_keeps)
  also have "\<dots> = JDict []"
    using add_loyalty_keeps[OF s(2), of "''inventory_status''"]
    by (simp add: dict_get_none_dict_set)
  finally have e: "dict_get_none r ''inventory_status'' = JDict []" .
  have "dict_get_none (inventory_execute env ids q loc) ''availability'' = JDict a"
    by (simp add: a(2) dict_get_none_def dict_get_def)
  with e a(1) show ?thesis by simp
qed


subsection \<open>A purchase turn, step by step\<close>


lemma buy_intent: "detect_intent ''I want to buy this'' = ''purchase_intent''"
  by code_simp

lemma buy_suggestions:
  "extract_suggestions ''Great choice!'' ''purchase_intent'' = [''View Cart'', ''Checkout'']"
  by code_simp

lemma str_int_1: "str_int 1 = ''1''"
  by code_simp

lemma handle_conversation_purchase:
  "handle_conversation demo_env (JStr ''I want to buy this'') JNone JNone cart_items []
     = execute demo_env
         (purchase_context (if truthy cart_items then cart_items else JList []))"
  by (simp add: handle_conversation_def purchase_context_def)

lemma sales_execute_purchase:
  "sales_execute demo_env
     [(''message'', dict_get (purchase_context c) ''message'' (JStr '''')),
      (''customer_info'', dict_get (purchase_context c) ''customer_info'' (JDict [])),
      (''conversation_history'', dict_get (purchase_context c) ''conversation_history'' (JList []))]
   = Inr purchase_sales"
  by (simp add: sales_execute_def purchase_context_def dict_get_def demo_env_def buy_intent
      buy_suggestions purchase_sales_def sales_next_actions_def needs_worker_agents_def)

lemma turn_purchase:
  "turn demo_env (purchase_context c)
     = and_then (handle_purchase demo_env (purchase_context c)
                   [''inventory'', ''loyalty'', ''payment''])
         (\<lambda>worker_results.
            synthesize_response demo_env purchase_sales worker_results (purchase_context c))"
  unfolding turn_def sales_execute_purchase
  by (simp add: purchase_sales_def Let_def)

lemma handle_purchase_one_item:
  "handle_purchase demo_env
     (purchase_context (JList [JDict [(''product_id'', JInt 1), (''quantity'', JInt 2)]]))
     [''inventory'', ''loyalty'', ''payment'']
   = Inr [(''inventory'',
            JDict (inventory_execute demo_env (JList [JInt 1]) [(''1'', JInt 2)] (JStr ''online''))),
          (''payment'', JDict [(''success'', JBool True), (''order_id'', JStr ''ORD-1'')])]"
  by (simp add: handle_purchase_def purchase_context_def dict_get_def dict_get_none_def
      quantity_entry_def dict_of_entries_def dict_set_def put_result_def str_int_1 Let_def)
    (simp add: demo_env_def str_int_1)


theorem inventory_status_is_empty_witness:
  "field ''inventory_status''
     (handle_conversation demo_env (JStr ''I want to buy this'') JNone JNone
        (JList [JDict [(''product_id'', JInt 1), (''quantity'', JInt 2)]]) [])
     = Inr (JDict []) \<and>
   dict_get_none
     (inventory_execute demo_env (JList [JInt 1]) [(''1'', JInt 2)] (JStr ''online''))
     ''success'' = JBool True \<and>
   dict_get_none
     (inventory_execute demo_env (JList [JInt 1]) [(''1'', JInt 2)] (JStr ''online''))
     ''availability''
     = JDict [(''1'', JDict [(''product_id'', JInt 1), (''available'', JBool True),
                             (''quantity_requested'', JInt 2)])]"
proof -
  let ?items = "JList [JDict [(''product_id'', JInt 1), (''quantity'', JInt 2 :: rat json)]]"
  let ?inv = "inventory_execute demo_env (JList [JInt 1]) [(''1'', JInt 2)] (JStr ''online'')"
  let ?wr = "[(''inventory'', JDict ?inv),
              (''payment'', JDict [(''success'', JBool True), (''order_id'', JStr ''ORD-1'')])]"
  have inv: "?inv = [(''success'', JBool True),
       (''availability'', JDict [(''1'', JDict [(''product_id'', JInt 1),
           (''available'', JBool True), (''quantity_requested'', JInt 2)])]),
       (''checked_at'', JStr ''2024-05-01T10:00:00'')]"
    by (simp add: inventory_execute_def demo_env_def dict_get_def dict_set_def str_int_1 Let_def)
  have ok: "dict_get_none ?inv ''success'' = JBool True"
    by (simp add: inv dict_get_none_def dict_get_def)
  have av: "dict_get_none ?inv ''availability''
     = JDict [(''1'', JDict [(''product_id'', JInt 1), (''available'', JBool True),
                             (''quantity_requested'', JInt 2)])]"
    by (simp add: inv dict_get_none_def dict_get_def)
  have t: "turn demo_env (purchase_context ?items)
             = synthesize_response demo_env purchase_sales ?wr (purchase_context ?items)"
    by (simp add: turn_purchase handle_purchase_one_item)
  have "\<exists>r. synthesize_response demo_env purchase_sales ?wr (purchase_context ?items) = Inr r"
    by (simp add: inv synthesize_response_def add_recommendations_def add_inventory_def
        add_loyalty_def add_payment_def add_cart_def determine_next_actions_def dict_has_def
        dict_get_none_def dict_get_def purchase_sales_def purchase_context_def Let_def)
  then obtain r where
    r: "synthesize_response demo_env purchase_sales ?wr (purchase_context ?items) = Inr r"
    by blast
  have g: "dict_get_none ?wr ''inventory'' = JDict ?inv"
    by (simp add: dict_get_none_def dict_get_def)
  have h: "dict_has ?wr ''inventory''"
    by (simp add: dict_has_def)
  have tr: "truthy (dict_get_none ?inv ''success'')"
    by (simp add: ok)
  have "dict_get_none r ''inventory_status'' = JDict []"
    using inventory_status_is_empty[OF g h tr r] by blast
  then have "field ''inventory_status''
     (handle_conversation demo_env (JStr ''I want to buy this'') JNone JNone ?items [])
     = Inr (JDict [])"
    by (simp add: handle_conversation_purchase execute_def t r field_def)
  with ok av show ?thesis by blast
qed




end
